theory Spec2Isabelle
  imports Complex_Main
begin

section \<open>Values\<close>

text \<open>
  Python's \<open>str\<close> is \<open>string\<close>, its unbounded \<open>int\<close> is \<open>int\<close>. A \<open>float\<close> is carried
  as a \<open>real\<close>: the handlers only store and return prices and subtotals, they never
  compute or compare with them.

  A JSON-like value is what a handler returns: a Python dict is an association list, in
  insertion order.
\<close>

datatype json =
    JNone
  | JBool bool
  | JInt int
  | JFloat real
  | JStr string
  | JList "json list"
  | JDict "(string \<times> json) list"

type_synonym dict = "(string \<times> json) list"

text \<open>
  What a handler raises. \<open>HTTPException\<close> is raised by the handlers themselves
  (\<open>main.py\<close>); \<open>ValidationError\<close> is what a schema class of \<open>schemas.py\<close> raises when it is
  constructed inside a handler with a field outside its declared bounds (the string names
  the field).
\<close>

datatype error =
    HTTPException nat string
  | ValidationError string

text \<open>
  The status the framework answers with: an \<open>HTTPException\<close> carries its own status; any
  other exception that leaves a handler is an internal server error. (Status 422 is what
  the framework answers when the \<^emph>\<open>request body\<close> does not fit the handler's parameter
  type, before the handler runs.)
\<close>

fun status_code :: "error \<Rightarrow> nat" where
  "status_code (HTTPException code detail) = code"
| "status_code (ValidationError field) = 500"

subsection \<open>Object identifiers\<close>

text \<open>
  An \<open>ObjectId\<close> wraps its bytes (\<open>binary\<close>); \<open>str\<close> of it is their lowercase hexadecimal
  form. \<open>ObjectId(s)\<close> for a string \<open>s\<close> accepts exactly the strings of 24 characters that
  \<open>bytes.fromhex\<close> accepts: hexadecimal digits of either case, in pairs, white space
  skipped between pairs.
\<close>

datatype ObjectId = ObjectId (binary: "nat list")

definition isspace :: "char \<Rightarrow> bool" where
  "isspace c = (c \<in> set [CHR '' '', CHR 0x09, CHR 0x0A, CHR 0x0B, CHR 0x0C, CHR 0x0D])"

definition digit_value :: "char \<Rightarrow> nat option" where
  "digit_value c =
     (let n = (of_char c :: nat) in
      if 48 \<le> n \<and> n \<le> 57 then Some (n - 48)
      else if 97 \<le> n \<and> n \<le> 102 then Some (n - 87)
      else if 65 \<le> n \<and> n \<le> 70 then Some (n - 55)
      else None)"

fun fromhex :: "string \<Rightarrow> nat list option" where
  "fromhex [] = Some []"
| "fromhex (c # cs) =
     (if isspace c then fromhex cs
      else (case cs of
              [] \<Rightarrow> None
            | d # ds \<Rightarrow>
                (case (digit_value c, digit_value d) of
                   (Some hi, Some lo) \<Rightarrow> map_option ((#) (16 * hi + lo)) (fromhex ds)
                 | _ \<Rightarrow> None)))"

definition hexlify :: "nat list \<Rightarrow> string" where
  "hexlify bs =
     concat (map (\<lambda>b. [''0123456789abcdef'' ! (b div 16), ''0123456789abcdef'' ! (b mod 16)]) bs)"

definition str_oid :: "ObjectId \<Rightarrow> string" where
  "str_oid i = hexlify (binary i)"

text \<open>
  \<^verbatim>\<open>
  def to_oid(oid: str):
      try:
          return ObjectId(oid)
      except Exception:
          raise HTTPException(status_code=400, detail="Invalid ID")
  \<close>
\<close>

definition to_oid :: "string \<Rightarrow> error + ObjectId" where
  "to_oid oid =
     (if length oid = 24
      then (case fromhex oid of
              Some bs \<Rightarrow> Inr (ObjectId bs)
            | None \<Rightarrow> Inl (HTTPException 400 ''Invalid ID''))
      else Inl (HTTPException 400 ''Invalid ID''))"

section \<open>Schemas (\<open>schemas.py\<close>)\<close>

text \<open>
  One record per schema class, with the class's field names; a field shared by several
  classes is written qualified (\<open>Inventory.quantity\<close>, \<open>OrderItem.quantity\<close>). An
  \<open>Optional\<close> field is an \<open>option\<close>.
\<close>

record Config =
  limited_edition_active :: bool
  limited_edition_name :: string

record Collection =
  handle :: string
  title :: string
  description :: "string option"
  is_limited :: bool

record Product =
  title :: string
  subtitle :: "string option"
  description :: "string option"
  price :: real
  compare_at_price :: "real option"
  collection_handle :: string
  image :: "string option"
  limited_badge :: "string option"
  is_bundle :: bool

record Inventory =
  product_id :: string
  quantity :: int

record Review =
  product_id :: string
  author :: string
  rating :: int
  content :: string

record OrderItem =
  product_id :: string
  title :: string
  price :: real
  quantity :: int

record Order =
  items :: "OrderItem list"
  subtotal :: real
  email :: string
  name :: "string option"
  address :: "string option"

text \<open>
  \<open>Config(limited_edition_active=...)\<close> with its declared defaults: both fields are
  optional in the constructor.
\<close>

definition ConfigSchema :: "bool option \<Rightarrow> string option \<Rightarrow> Config" where
  "ConfigSchema active nm =
     \<lparr>limited_edition_active = (case active of Some b \<Rightarrow> b | None \<Rightarrow> False),
      limited_edition_name = (case nm of Some n \<Rightarrow> n | None \<Rightarrow> ''Celestial Gaze'')\<rparr>"

text \<open>
  \<open>Review(product_id=..., author=..., rating=..., content=...)\<close>: the constructor checks
  \<open>rating: int = Field(..., ge=1, le=5)\<close> and raises otherwise.
\<close>

definition ReviewSchema :: "string \<Rightarrow> string \<Rightarrow> int \<Rightarrow> string \<Rightarrow> error + Review" where
  "ReviewSchema pid a r c =
     (if 1 \<le> r \<and> r \<le> 5
      then Inr \<lparr>Review.product_id = pid, author = a, rating = r, content = c\<rparr>
      else Inl (ValidationError ''rating''))"

section \<open>The document store\<close>

text \<open>
  A stored document is the schema's fields together with the identifier the store gave
  it. A collection is the list of its documents in insertion order. The database holds
  the six collections \<open>db["config"]\<close>, ..., \<open>db["order"]\<close>.
\<close>

record 'a document =
  doc_id :: ObjectId
  doc :: 'a

record store =
  db_config :: "Config document list"
  db_collection :: "Collection document list"
  db_product :: "Product document list"
  db_inventory :: "Inventory document list"
  db_review :: "Review document list"
  db_order :: "Order document list"

text \<open>
  Modelled from the spec: the document store adapter (\<open>database.py\<close> and the database
  client behind \<open>db\<close>) is not among the sources. The spec describes it as "a document
  store reachable by collection name, with find/insert/update-by-filter operations"
  whose documents are "uniquely identified by a generated identifier assigned at
  creation". A filter is a predicate on documents; \<open>find_one\<close> returns the first document
  that matches, \<open>update_one\<close> changes the first document that matches and nothing when
  none does, \<open>get_documents\<close> lists the matching documents, \<open>count_documents\<close> with the
  empty filter counts all of them.
\<close>

fun find_one :: "('a \<Rightarrow> bool) \<Rightarrow> 'a list \<Rightarrow> 'a option" where
  "find_one flt [] = None"
| "find_one flt (d # ds) = (if flt d then Some d else find_one flt ds)"

fun update_one :: "('a \<Rightarrow> bool) \<Rightarrow> ('a \<Rightarrow> 'a) \<Rightarrow> 'a list \<Rightarrow> 'a list" where
  "update_one flt upd [] = []"
| "update_one flt upd (d # ds) = (if flt d then upd d # ds else d # update_one flt upd ds)"

definition get_documents :: "('a \<Rightarrow> bool) \<Rightarrow> 'a list \<Rightarrow> 'a list" where
  "get_documents flt ds = filter flt ds"

definition count_documents :: "'a list \<Rightarrow> nat" where
  "count_documents ds = length ds"

definition insert_one :: "ObjectId \<Rightarrow> 'a \<Rightarrow> 'a document list \<Rightarrow> 'a document list" where
  "insert_one i d ds = ds @ [\<lparr>doc_id = i, doc = d\<rparr>]"

text \<open>
  Modelled from the spec: the identifier generator. The spec only says that a new
  document gets a fresh identifier; here it is the successor of the largest identifier
  in the database, read as a big-endian number and written on twelve bytes.
\<close>

definition oid_num :: "ObjectId \<Rightarrow> nat" where
  "oid_num i = foldl (\<lambda>a b. 256 * a + b) 0 (binary i)"

function digits256 :: "nat \<Rightarrow> nat list" where
  "digits256 n = (if n < 256 then [n] else digits256 (n div 256) @ [n mod 256])"
  by pat_completeness auto
termination
  by (relation "measure id") auto

definition pad12 :: "nat list \<Rightarrow> nat list" where
  "pad12 bs = replicate (12 - length bs) 0 @ bs"

definition all_ids :: "store \<Rightarrow> ObjectId list" where
  "all_ids s =
     map doc_id (db_config s) @ map doc_id (db_collection s) @ map doc_id (db_product s) @
     map doc_id (db_inventory s) @ map doc_id (db_review s) @ map doc_id (db_order s)"

definition new_ObjectId :: "store \<Rightarrow> ObjectId" where
  "new_ObjectId s = ObjectId (pad12 (digits256 (Suc (fold max (map oid_num (all_ids s)) 0))))"

text \<open>
  Modelled from the spec: \<open>create_document(collection_name, data)\<close> of \<open>database.py\<close>
  inserts the model's fields as a new document of the named collection and returns the
  new identifier as a string (the handlers use the result as \<open>order_id\<close>, \<open>review_id\<close>
  and as an inventory record's \<open>product_id\<close>, "stringified ObjectId of product"). One
  definition per collection name the handlers pass.
\<close>

definition create_document_config :: "store \<Rightarrow> Config \<Rightarrow> string \<times> store" where
  "create_document_config s d =
     (let i = new_ObjectId s in (str_oid i, s\<lparr>db_config := insert_one i d (db_config s)\<rparr>))"

definition create_document_collection :: "store \<Rightarrow> Collection \<Rightarrow> string \<times> store" where
  "create_document_collection s d =
     (let i = new_ObjectId s in (str_oid i, s\<lparr>db_collection := insert_one i d (db_collection s)\<rparr>))"

definition create_document_product :: "store \<Rightarrow> Product \<Rightarrow> string \<times> store" where
  "create_document_product s d =
     (let i = new_ObjectId s in (str_oid i, s\<lparr>db_product := insert_one i d (db_product s)\<rparr>))"

definition create_document_inventory :: "store \<Rightarrow> Inventory \<Rightarrow> string \<times> store" where
  "create_document_inventory s d =
     (let i = new_ObjectId s in (str_oid i, s\<lparr>db_inventory := insert_one i d (db_inventory s)\<rparr>))"

definition create_document_review :: "store \<Rightarrow> Review \<Rightarrow> string \<times> store" where
  "create_document_review s d =
     (let i = new_ObjectId s in (str_oid i, s\<lparr>db_review := insert_one i d (db_review s)\<rparr>))"

definition create_document_order :: "store \<Rightarrow> Order \<Rightarrow> string \<times> store" where
  "create_document_order s d =
     (let i = new_ObjectId s in (str_oid i, s\<lparr>db_order := insert_one i d (db_order s)\<rparr>))"

section \<open>Checkout (\<open>main.py\<close>)\<close>

text \<open>
  \<^verbatim>\<open>
  def checkout(order: OrderSchema):
      for item in order.items:
          inv = db["inventory"].find_one({"product_id": item.product_id})
          if not inv or inv.get("quantity", 0) < item.quantity:
              raise HTTPException(400, f"Insufficient stock for {item.title}")
      for item in order.items:
          db["inventory"].update_one({"product_id": item.product_id},
                                     {"$inc": {"quantity": -item.quantity}})
      oid = create_document("order", order)
      return {"ok": True, "order_id": oid}
  \<close>
  The first loop is \<open>check_stock\<close>, the second is \<open>deduct\<close>. An inventory document always
  has its \<open>quantity\<close> field (the schema requires it), so \<open>inv.get("quantity", 0)\<close> is the
  field.
\<close>

definition by_product_id :: "string \<Rightarrow> Inventory document \<Rightarrow> bool" where
  "by_product_id pid d = (Inventory.product_id (doc d) = pid)"

definition inc_quantity :: "int \<Rightarrow> Inventory document \<Rightarrow> Inventory document" where
  "inc_quantity n d = d\<lparr>doc := (doc d)\<lparr>Inventory.quantity := Inventory.quantity (doc d) + n\<rparr>\<rparr>"

fun check_stock :: "Inventory document list \<Rightarrow> OrderItem list \<Rightarrow> error option" where
  "check_stock stock [] = None"
| "check_stock stock (item # rest) =
     (case find_one (by_product_id (OrderItem.product_id item)) stock of
        None \<Rightarrow> Some (HTTPException 400 (''Insufficient stock for '' @ OrderItem.title item))
      | Some d \<Rightarrow>
          if Inventory.quantity (doc d) < OrderItem.quantity item
          then Some (HTTPException 400 (''Insufficient stock for '' @ OrderItem.title item))
          else check_stock stock rest)"

fun deduct :: "Inventory document list \<Rightarrow> OrderItem list \<Rightarrow> Inventory document list" where
  "deduct stock [] = stock"
| "deduct stock (item # rest) =
     deduct (update_one (by_product_id (OrderItem.product_id item))
               (inc_quantity (- OrderItem.quantity item)) stock) rest"

definition checkout :: "store \<Rightarrow> Order \<Rightarrow> (error + dict) \<times> store" where
  "checkout s order =
     (case check_stock (db_inventory s) (items order) of
        Some e \<Rightarrow> (Inl e, s)
      | None \<Rightarrow>
          (let s1 = s\<lparr>db_inventory := deduct (db_inventory s) (items order)\<rparr>;
               (oid, s2) = create_document_order s1 order
           in (Inr [(''ok'', JBool True), (''order_id'', JStr oid)], s2)))"

section \<open>Config (\<open>main.py\<close>)\<close>

text \<open>
  The dict of a stored document as a handler returns it: the schema's fields, and \<open>_id\<close>
  already replaced by its string (\<open>doc["_id"] = str(doc["_id"])\<close>).
\<close>

definition Config_dict :: "Config \<Rightarrow> dict" where
  "Config_dict c =
     [(''limited_edition_active'', JBool (Config.limited_edition_active c)),
      (''limited_edition_name'', JStr (limited_edition_name c))]"

definition json_opt :: "('a \<Rightarrow> json) \<Rightarrow> 'a option \<Rightarrow> json" where
  "json_opt f x = (case x of None \<Rightarrow> JNone | Some v \<Rightarrow> f v)"

definition Product_dict :: "Product \<Rightarrow> dict" where
  "Product_dict p =
     [(''title'', JStr (Product.title p)),
      (''subtitle'', json_opt JStr (subtitle p)),
      (''description'', json_opt JStr (Product.description p)),
      (''price'', JFloat (Product.price p)),
      (''compare_at_price'', json_opt JFloat (compare_at_price p)),
      (''collection_handle'', JStr (collection_handle p)),
      (''image'', json_opt JStr (image p)),
      (''limited_badge'', json_opt JStr (limited_badge p)),
      (''is_bundle'', JBool (is_bundle p))]"

definition with_id :: "ObjectId \<Rightarrow> dict \<Rightarrow> dict" where
  "with_id i d = (''_id'', JStr (str_oid i)) # d"

text \<open>
  \<^verbatim>\<open>
  def get_config():
      doc = db["config"].find_one({})
      if not doc:
          return {"limited_edition_active": False, "limited_edition_name": "Celestial Gaze"}
      doc["_id"] = str(doc["_id"]) if "_id" in doc else None
      return doc
  \<close>
\<close>

definition get_config :: "store \<Rightarrow> dict" where
  "get_config s =
     (case find_one (\<lambda>d. True) (db_config s) of
        None \<Rightarrow>
          [(''limited_edition_active'', JBool False),
           (''limited_edition_name'', JStr ''Celestial Gaze'')]
      | Some d \<Rightarrow> with_id (doc_id d) (Config_dict (doc d)))"

text \<open>
  \<^verbatim>\<open>
  class ConfigToggle(BaseModel):
      limited_edition_active: bool

  def toggle_config(payload: ConfigToggle):
      existing = db["config"].find_one({})
      if existing:
          db["config"].update_one({"_id": existing["_id"]},
              {"$set": {"limited_edition_active": payload.limited_edition_active}})
      else:
          create_document("config",
              ConfigSchema(limited_edition_active=payload.limited_edition_active))
      return {"ok": True, "limited_edition_active": payload.limited_edition_active}
  \<close>
\<close>

record ConfigToggle =
  limited_edition_active :: bool

definition by_id :: "ObjectId \<Rightarrow> 'a document \<Rightarrow> bool" where
  "by_id i d = (doc_id d = i)"

definition set_limited_edition_active :: "bool \<Rightarrow> Config document \<Rightarrow> Config document" where
  "set_limited_edition_active b d = d\<lparr>doc := (doc d)\<lparr>Config.limited_edition_active := b\<rparr>\<rparr>"

definition toggle_config :: "store \<Rightarrow> ConfigToggle \<Rightarrow> dict \<times> store" where
  "toggle_config s payload =
     (let s' =
        (case find_one (\<lambda>d. True) (db_config s) of
           Some existing \<Rightarrow>
             s\<lparr>db_config :=
                 update_one (by_id (doc_id existing))
                   (set_limited_edition_active (ConfigToggle.limited_edition_active payload))
                   (db_config s)\<rparr>
         | None \<Rightarrow>
             snd (create_document_config s
                    (ConfigSchema (Some (ConfigToggle.limited_edition_active payload)) None)))
      in ([(''ok'', JBool True),
           (''limited_edition_active'', JBool (ConfigToggle.limited_edition_active payload))],
          s'))"

section \<open>Products (\<open>main.py\<close>)\<close>

text \<open>
  \<^verbatim>\<open>
  def list_products(handle: str):
      products = get_documents("product", {"collection_handle": handle})
      for p in products:
          p["_id"] = str(p["_id"]) if "_id" in p else None
          inv = db["inventory"].find_one({"product_id": str(p["_id"])})
          p["inventory"] = inv["quantity"] if inv else 0
      return products
  \<close>
\<close>

definition inventory_of :: "Inventory document option \<Rightarrow> json" where
  "inventory_of found = (case found of Some d \<Rightarrow> JInt (Inventory.quantity (doc d)) | None \<Rightarrow> JInt 0)"

definition list_products_item :: "store \<Rightarrow> Product document \<Rightarrow> dict" where
  "list_products_item s p =
     (let found = find_one (by_product_id (str_oid (doc_id p))) (db_inventory s)
      in with_id (doc_id p) (Product_dict (doc p)) @ [(''inventory'', inventory_of found)])"

definition list_products :: "store \<Rightarrow> string \<Rightarrow> dict list" where
  "list_products s h =
     map (list_products_item s)
       (get_documents (\<lambda>p. collection_handle (doc p) = h) (db_product s))"

text \<open>
  \<^verbatim>\<open>
  def get_product(product_id: str):
      prod = db["product"].find_one({"_id": to_oid(product_id)})
      if not prod:
          raise HTTPException(404, "Product not found")
      prod["_id"] = str(prod["_id"]) if "_id" in prod else None
      inv = db["inventory"].find_one({"product_id": product_id})
      prod["inventory"] = inv["quantity"] if inv else 0
      return prod
  \<close>
\<close>

definition get_product :: "store \<Rightarrow> string \<Rightarrow> error + dict" where
  "get_product s pid =
     (case to_oid pid of
        Inl e \<Rightarrow> Inl e
      | Inr i \<Rightarrow>
          (case find_one (by_id i) (db_product s) of
             None \<Rightarrow> Inl (HTTPException 404 ''Product not found'')
           | Some p \<Rightarrow>
               (let found = find_one (by_product_id pid) (db_inventory s)
                in Inr (with_id (doc_id p) (Product_dict (doc p)) @
                        [(''inventory'', inventory_of found)]))))"

section \<open>Reviews (\<open>main.py\<close>)\<close>

text \<open>
  \<^verbatim>\<open>
  class NewReview(BaseModel):
      author: str
      rating: int
      content: str

  def add_review(product_id: str, payload: NewReview):
      rid = create_document("review", ReviewSchema(product_id=product_id,
                author=payload.author, rating=payload.rating, content=payload.content))
      return {"ok": True, "review_id": rid}
  \<close>
  The request body type \<open>NewReview\<close> puts no bound on \<open>rating\<close>: every integer reaches the
  handler.
\<close>

record NewReview =
  author :: string
  rating :: int
  content :: string

definition add_review :: "store \<Rightarrow> string \<Rightarrow> NewReview \<Rightarrow> (error + dict) \<times> store" where
  "add_review s pid payload =
     (case ReviewSchema pid (NewReview.author payload) (NewReview.rating payload)
             (NewReview.content payload) of
        Inl e \<Rightarrow> (Inl e, s)
      | Inr r \<Rightarrow>
          (let (rid, s') = create_document_review s r
           in (Inr [(''ok'', JBool True), (''review_id'', JStr rid)], s')))"

section \<open>Seeding (\<open>main.py\<close>)\<close>

text \<open>
  \<open>seed\<close> has three guarded sections, one after the other: the config, the collections,
  the products with their inventory. The loop over the three celestial products is
  \<open>seed_celestial\<close>; the list \<open>pids\<close> it fills is never read.
\<close>

definition seed_config :: "store \<Rightarrow> store" where
  "seed_config s =
     (if count_documents (db_config s) = 0
      then snd (create_document_config s (ConfigSchema (Some False) (Some ''Celestial Gaze'')))
      else s)"

definition seed_collections :: "store \<Rightarrow> store" where
  "seed_collections s =
     (if count_documents (db_collection s) = 0
      then
        (let (c1, s1) = create_document_collection s
               \<lparr>handle = ''core'', Collection.title = ''The Gilded Gaze'',
                Collection.description = Some ''Quiet luxury for timeless radiance'',
                is_limited = False\<rparr>;
             (c2, s2) = create_document_collection s1
               \<lparr>handle = ''celestial-gaze'', Collection.title = ''Celestial Gaze'',
                Collection.description = Some ''Limited edition celestial hues'',
                is_limited = True\<rparr>
         in s2)
      else s)"

fun seed_celestial :: "store \<Rightarrow> (string \<times> string) list \<Rightarrow> store" where
  "seed_celestial s [] = s"
| "seed_celestial s ((t, st) # rest) =
     (let (pid, s1) = create_document_product s
            \<lparr>Product.title = t, subtitle = Some st,
             Product.description = Some ''Limited edition celestial-inspired clusters.'',
             Product.price = 28, compare_at_price = Some 32,
             collection_handle = ''celestial-gaze'', image = None,
             limited_badge = Some ''Limited Edition'', is_bundle = False\<rparr>;
          (iid, s2) = create_document_inventory s1
            \<lparr>Inventory.product_id = pid, Inventory.quantity = 20\<rparr>
      in seed_celestial s2 rest)"

definition seed_products :: "store \<Rightarrow> store" where
  "seed_products s =
     (if count_documents (db_product s) = 0
      then
        (let (core_id, s1) = create_document_product s
               \<lparr>Product.title = ''The Classic Heirloom'', subtitle = Some ''Effortless elegance'',
                Product.description = Some ''A refined cluster that enhances with subtle grace.'',
                Product.price = 24, compare_at_price = None,
                collection_handle = ''core'', image = None,
                limited_badge = None, is_bundle = False\<rparr>;
             (i1, s2) = create_document_inventory s1
               \<lparr>Inventory.product_id = core_id, Inventory.quantity = 50\<rparr>;
             s3 = seed_celestial s2
               [(''The Sapphire Serenity'', ''composure & poise''),
                (''The Amethyst Aura'', ''intuition & depth''),
                (''The Rose Gold Reverie'', ''warmth & allure'')];
             (bundle_id, s4) = create_document_product s3
               \<lparr>Product.title = ''The Celestial Kit'',
                subtitle = Some ''Complete limited edition set'',
                Product.description =
                  Some ''All three celestial styles in one heirloom-worthy ensemble.'',
                Product.price = 72, compare_at_price = Some 84,
                collection_handle = ''celestial-gaze'', image = None,
                limited_badge = Some ''Limited Edition'', is_bundle = True\<rparr>;
             (i2, s5) = create_document_inventory s4
               \<lparr>Inventory.product_id = bundle_id, Inventory.quantity = 10\<rparr>
         in s5)
      else s)"

definition seed :: "store \<Rightarrow> dict \<times> store" where
  "seed s =
     (let s1 = seed_config s;
          s2 = seed_collections s1;
          s3 = seed_products s2
      in ([(''status'', JStr ''seeded'')], s3))"


section \<open>Notions the properties are stated with\<close>

text \<open>
  The line item is in stock: the inventory lookup the handler makes for the item's
  product finds a record, and that record's quantity covers the requested quantity.
  This is the negation of the handler's test
  \<open>not inv or inv.get("quantity", 0) < item.quantity\<close>.
\<close>

definition in_stock :: "Inventory document list \<Rightarrow> OrderItem \<Rightarrow> bool" where
  "in_stock stock item =
     (case find_one (by_product_id (OrderItem.product_id item)) stock of
        None \<Rightarrow> False
      | Some d \<Rightarrow> OrderItem.quantity item \<le> Inventory.quantity (doc d))"

text \<open>The total quantity an order's line items request of one product.\<close>

definition requested :: "OrderItem list \<Rightarrow> string \<Rightarrow> int" where
  "requested its pid =
     sum_list (map OrderItem.quantity (filter (\<lambda>it. OrderItem.product_id it = pid) its))"

text \<open>
  The record at position \<open>i\<close> is the one a lookup by its \<open>product_id\<close> finds: no earlier
  record of the collection carries the same \<open>product_id\<close>.
\<close>

definition looked_up :: "Inventory document list \<Rightarrow> nat \<Rightarrow> bool" where
  "looked_up stock i =
     list_all (\<lambda>d. Inventory.product_id (doc d) \<noteq> Inventory.product_id (doc (stock ! i)))
       (take i stock)"

text \<open>
  Checkout calls run one after the other, each on the database the one before left;
  the run stops at the first call that fails.
\<close>

fun checkout_all :: "store \<Rightarrow> Order list \<Rightarrow> error + store" where
  "checkout_all s [] = Inr s"
| "checkout_all s (order # orders) =
     (case checkout s order of
        (Inl e, s') \<Rightarrow> Inl e
      | (Inr r, s') \<Rightarrow> checkout_all s' orders)"

definition empty_store :: store where
  "empty_store =
     \<lparr>db_config = [], db_collection = [], db_product = [], db_inventory = [],
      db_review = [], db_order = []\<rparr>"

section \<open>Example data\<close>

text \<open>
  A small shop: one product with its inventory record (45 in stock), as a seeded
  database looks after a first sale. The product's identifier has letters among its
  hexadecimal digits; the inventory record names the product by the string of that
  identifier, as \<open>seed\<close> writes it.
\<close>

definition heirloom_oid :: ObjectId where
  "heirloom_oid = ObjectId [101, 161, 178, 195, 212, 229, 246, 167, 184, 201, 208, 225]"

definition heirloom_product :: Product where
  "heirloom_product =
     \<lparr>Product.title = ''The Classic Heirloom'', subtitle = Some ''Effortless elegance'',
      Product.description = Some ''A refined cluster that enhances with subtle grace.'',
      Product.price = 24, compare_at_price = None,
      collection_handle = ''core'', image = None,
      limited_badge = None, is_bundle = False\<rparr>"

definition heirloom_stock :: "int \<Rightarrow> Inventory document" where
  "heirloom_stock q =
     \<lparr>doc_id = ObjectId [101, 161, 178, 195, 212, 229, 246, 167, 184, 201, 208, 226],
      doc = \<lparr>Inventory.product_id = ''65a1b2c3d4e5f6a7b8c9d0e1'', Inventory.quantity = q\<rparr>\<rparr>"

definition shop :: store where
  "shop =
     \<lparr>db_config = [], db_collection = [],
      db_product = [\<lparr>doc_id = heirloom_oid, doc = heirloom_product\<rparr>],
      db_inventory = [heirloom_stock 45],
      db_review = [], db_order = []\<rparr>"

text \<open>
  The same shop with a second inventory record for the same product, in front of the
  first and empty: the store does not enforce one record per product.
\<close>

definition shop_two_records :: store where
  "shop_two_records =
     shop\<lparr>db_inventory :=
            [\<lparr>doc_id = ObjectId [101, 161, 178, 195, 212, 229, 246, 167, 184, 201, 208, 227],
              doc = \<lparr>Inventory.product_id = ''65a1b2c3d4e5f6a7b8c9d0e1'',
                     Inventory.quantity = 0\<rparr>\<rparr>,
             heirloom_stock 45]\<rparr>"

text \<open>A line item for \<open>q\<close> units of the product, and an order of given line items.\<close>

definition heirloom :: "int \<Rightarrow> OrderItem" where
  "heirloom q =
     \<lparr>OrderItem.product_id = ''65a1b2c3d4e5f6a7b8c9d0e1'',
      OrderItem.title = ''The Classic Heirloom'', OrderItem.price = 24,
      OrderItem.quantity = q\<rparr>"

definition order_of :: "OrderItem list \<Rightarrow> Order" where
  "order_of its =
     \<lparr>items = its, subtotal = 120, email = ''buyer@example.com'',
      name = None, address = None\<rparr>"

text \<open>A database whose config collection holds one document, with the flag on.\<close>

definition shop_configured :: store where
  "shop_configured =
     shop\<lparr>db_config :=
            [\<lparr>doc_id = ObjectId [101, 161, 178, 195, 212, 229, 246, 167, 184, 201, 208, 224],
              doc = \<lparr>Config.limited_edition_active = True,
                     limited_edition_name = ''Celestial Gaze''\<rparr>\<rparr>]\<rparr>"

section \<open>The store and its identifiers\<close>

declare digits256.simps [simp del]

lemma oid_num_digits256: "foldl (\<lambda>a b. 256 * a + b) 0 (digits256 n) = n"
proof (induction n rule: digits256.induct)
  case (1 n)
  show ?case
  proof (cases "n < 256")
    case True
    then show ?thesis by (simp add: digits256.simps)
  next
    case False
    then have "foldl (\<lambda>a b. 256 * a + b) 0 (digits256 (n div 256)) = n div 256"
      using 1 by simp
    with False show ?thesis
      by (subst digits256.simps) simp
  qed
qed

lemma foldl_256_zeros: "foldl (\<lambda>a b. 256 * a + b) 0 (replicate k 0) = (0::nat)"
  by (induction k) simp_all

lemma oid_num_new: "oid_num (ObjectId (pad12 (digits256 n))) = n"
  by (simp add: oid_num_def pad12_def foldl_256_zeros oid_num_digits256)

lemma fold_max_ge: "(a::nat) \<le> fold max xs a"
  by (induction xs arbitrary: a) (auto intro: order_trans [OF max.cobounded2])

lemma fold_max_mem: "x \<in> set xs \<Longrightarrow> (x::nat) \<le> fold max xs a"
proof (induction xs arbitrary: a)
  case Nil
  then show ?case by simp
next
  case (Cons y ys)
  show ?case
  proof (cases "x = y")
    case True
    have "max y a \<le> fold max ys (max y a)" by (rule fold_max_ge)
    then show ?thesis using True by simp
  next
    case False
    with Cons show ?thesis by simp
  qed
qed

lemma new_ObjectId_fresh: "new_ObjectId s \<notin> set (all_ids s)"
proof
  assume "new_ObjectId s \<in> set (all_ids s)"
  then have "oid_num (new_ObjectId s) \<in> set (map oid_num (all_ids s))" by simp
  then have "oid_num (new_ObjectId s) \<le> fold max (map oid_num (all_ids s)) 0"
    by (rule fold_max_mem)
  then show False by (simp add: new_ObjectId_def oid_num_new)
qed

section \<open>Lookups and updates\<close>

lemma find_one_None_iff: "find_one P xs = None \<longleftrightarrow> (\<forall>x\<in>set xs. \<not> P x)"
  by (induction xs) auto

lemma find_one_Some_mem: "find_one P xs = Some x \<Longrightarrow> x \<in> set xs \<and> P x"
  by (induction xs) (auto split: if_splits)

lemma length_update_one [simp]: "length (update_one P f xs) = length xs"
  by (induction xs) auto

lemma update_one_nth:
  "i < length xs \<Longrightarrow>
   update_one P f xs ! i = (if P (xs ! i) \<and> list_all (\<lambda>x. \<not> P x) (take i xs) then f (xs ! i) else xs ! i)"
proof (induction xs arbitrary: i)
  case Nil
  then show ?case by simp
next
  case (Cons x xs)
  show ?case
  proof (cases i)
    case 0
    then show ?thesis by simp
  next
    case (Suc k)
    with Cons show ?thesis by simp
  qed
qed

lemma map_update_one:
  "(\<And>x. g (f x) = g x) \<Longrightarrow> map g (update_one P f xs) = map g xs"
  by (induction xs) auto

lemma product_id_inc_quantity [simp]:
  "Inventory.product_id (doc (inc_quantity n d)) = Inventory.product_id (doc d)"
  by (simp add: inc_quantity_def)

lemma doc_id_inc_quantity [simp]: "doc_id (inc_quantity n d) = doc_id d"
  by (simp add: inc_quantity_def)

lemma inc_quantity_0 [simp]: "inc_quantity 0 d = d"
  by (simp add: inc_quantity_def)

lemma inc_quantity_inc_quantity [simp]: "inc_quantity a (inc_quantity b d) = inc_quantity (a + b) d"
  by (simp add: inc_quantity_def)

lemma length_deduct [simp]: "length (deduct stock its) = length stock"
  by (induction its arbitrary: stock) auto

lemma deduct_product_ids:
  "map (\<lambda>d. Inventory.product_id (doc d)) (deduct stock its) = map (\<lambda>d. Inventory.product_id (doc d)) stock"
  by (induction its arbitrary: stock) (auto simp: map_update_one)

lemma deduct_doc_ids: "map doc_id (deduct stock its) = map doc_id stock"
  by (induction its arbitrary: stock) (auto simp: map_update_one)

lemma requested_Nil [simp]: "requested [] pid = 0"
  by (simp add: requested_def)

lemma requested_Cons [simp]:
  "requested (it # its) pid = (if OrderItem.product_id it = pid then OrderItem.quantity it else 0) + requested its pid"
  by (simp add: requested_def)

lemma looked_up_cong:
  assumes "map (\<lambda>d. Inventory.product_id (doc d)) stock' = map (\<lambda>d. Inventory.product_id (doc d)) stock"
    and "i < length stock"
  shows "looked_up stock' i = looked_up stock i"
proof -
  have len: "length stock' = length stock"
    using assms(1) by (metis length_map)
  have nth: "\<And>j. j < length stock \<Longrightarrow>
      Inventory.product_id (doc (stock' ! j)) = Inventory.product_id (doc (stock ! j))"
    using assms(1) len by (metis nth_map)
  show ?thesis
    using assms(2) len nth
    by (auto simp: looked_up_def list_all_length)
qed

lemma deduct_nth:
  "i < length stock \<Longrightarrow>
   deduct stock its ! i =
     (if looked_up stock i
      then inc_quantity (- requested its (Inventory.product_id (doc (stock ! i)))) (stock ! i)
      else stock ! i)"
proof (induction its arbitrary: stock)
  case Nil
  then show ?case by simp
next
  case (Cons it its)
  let ?stock' = "update_one (by_product_id (OrderItem.product_id it))
                   (inc_quantity (- OrderItem.quantity it)) stock"
  have ids: "map (\<lambda>d. Inventory.product_id (doc d)) ?stock' = map (\<lambda>d. Inventory.product_id (doc d)) stock"
    by (simp add: map_update_one)
  have lk: "looked_up ?stock' i = looked_up stock i"
    using ids Cons.prems by (rule looked_up_cong)
  have i': "i < length ?stock'" using Cons.prems by simp
  have step: "?stock' ! i =
      (if Inventory.product_id (doc (stock ! i)) = OrderItem.product_id it \<and> looked_up stock i
       then inc_quantity (- OrderItem.quantity it) (stock ! i) else stock ! i)"
    using Cons.prems
    by (auto simp: update_one_nth by_product_id_def looked_up_def list_all_length)
  show ?case
    using Cons.IH [OF i'] lk step by (simp del: inc_quantity_inc_quantity) (simp add: algebra_simps)
qed

lemma find_one_looked_up:
  "i < length stock \<Longrightarrow> looked_up stock i \<Longrightarrow>
   find_one (by_product_id (Inventory.product_id (doc (stock ! i)))) stock = Some (stock ! i)"
proof (induction stock arbitrary: i)
  case Nil
  then show ?case by simp
next
  case (Cons d ds)
  show ?case
  proof (cases i)
    case 0
    then show ?thesis by (simp add: by_product_id_def)
  next
    case (Suc k)
    with Cons.prems have k: "k < length ds" and lk: "looked_up ds k"
      and ne: "Inventory.product_id (doc d) \<noteq> Inventory.product_id (doc (ds ! k))"
      by (auto simp: looked_up_def)
    from Cons.IH [OF k lk] ne Suc show ?thesis
      by (simp add: by_product_id_def)
  qed
qed

lemma looked_up_distinct:
  assumes "distinct (map (\<lambda>d. Inventory.product_id (doc d)) stock)" and "i < length stock"
  shows "looked_up stock i"
proof -
  have "Inventory.product_id (doc (stock ! j)) \<noteq> Inventory.product_id (doc (stock ! i))"
    if "j < i" for j
  proof -
    from that assms(2) have "j < length stock" and "j \<noteq> i" by auto
    with assms show ?thesis
      by (metis length_map nth_eq_iff_index_eq nth_map)
  qed
  with assms(2) show ?thesis
    by (simp add: looked_up_def list_all_length)
qed

lemma find_one_unique:
  "distinct (map (\<lambda>d. Inventory.product_id (doc d)) stock) \<Longrightarrow> d \<in> set stock \<Longrightarrow>
   find_one (by_product_id (Inventory.product_id (doc d))) stock = Some d"
  by (induction stock) (auto simp: by_product_id_def)

lemma deduct_unique:
  assumes "distinct (map (\<lambda>d. Inventory.product_id (doc d)) stock)"
  shows "deduct stock its =
           map (\<lambda>d. inc_quantity (- requested its (Inventory.product_id (doc d))) d) stock"
  using assms by (intro nth_equalityI) (simp_all add: deduct_nth looked_up_distinct)

section \<open>Checkout\<close>

lemma check_stock_None_iff: "check_stock stock its = None \<longleftrightarrow> list_all (in_stock stock) its"
  by (induction its) (auto simp: in_stock_def split: option.splits)

lemma check_stock_first_bad:
  "List.find (\<lambda>it. \<not> in_stock stock it) its = Some bad \<Longrightarrow>
   check_stock stock its =
     Some (HTTPException 400 (''Insufficient stock for '' @ OrderItem.title bad))"
  by (induction its) (auto simp: in_stock_def split: option.splits if_splits)

text \<open>
  An item is not in stock exactly when no inventory record carries its product, or the
  record the lookup finds holds less than the item asks for.
\<close>

lemma not_in_stock_iff:
  "\<not> in_stock stock item \<longleftrightarrow>
     (\<forall>d \<in> set stock. Inventory.product_id (doc d) \<noteq> OrderItem.product_id item) \<or>
     (\<exists>d. find_one (by_product_id (OrderItem.product_id item)) stock = Some d \<and>
          Inventory.quantity (doc d) < OrderItem.quantity item)"
proof (cases "find_one (by_product_id (OrderItem.product_id item)) stock")
  case None
  then have "\<not> in_stock stock item"
    by (simp add: in_stock_def)
  moreover from None
  have "\<forall>d \<in> set stock. Inventory.product_id (doc d) \<noteq> OrderItem.product_id item"
    by (simp add: find_one_None_iff by_product_id_def)
  ultimately show ?thesis by simp
next
  case (Some d)
  then have "d \<in> set stock" and "Inventory.product_id (doc d) = OrderItem.product_id item"
    by (auto dest: find_one_Some_mem simp: by_product_id_def)
  with Some show ?thesis
    by (auto simp: in_stock_def)
qed

lemma all_ids_deduct [simp]:
  "all_ids (s\<lparr>db_inventory := deduct (db_inventory s) its\<rparr>) = all_ids s"
  by (simp add: all_ids_def deduct_doc_ids)

lemma new_ObjectId_deduct [simp]:
  "new_ObjectId (s\<lparr>db_inventory := deduct (db_inventory s) its\<rparr>) = new_ObjectId s"
  by (simp add: new_ObjectId_def)

lemma checkout_in_stock:
  "list_all (in_stock (db_inventory s)) (items order) \<Longrightarrow>
   checkout s order =
     (Inr [(''ok'', JBool True), (''order_id'', JStr (str_oid (new_ObjectId s)))],
      s\<lparr>db_inventory := deduct (db_inventory s) (items order),
        db_order := db_order s @ [\<lparr>doc_id = new_ObjectId s, doc = order\<rparr>]\<rparr>)"
  by (simp add: checkout_def check_stock_None_iff [symmetric] create_document_order_def
      insert_one_def Let_def)

text \<open>
  Claim C1, as amended. When, for every line item of the order, the inventory lookup
  for the item's product finds a record (the first record of the collection with that
  \<open>product_id\<close>) whose quantity is at least the requested quantity, \<open>checkout\<close> answers
  \<open>{ok: true, order_id}\<close> where \<open>order_id\<close> is the string of an identifier that no document
  of the database carries; a new order document with that identifier and the whole
  order (its full item list) is appended to the order collection; every inventory
  record that a lookup by its \<open>product_id\<close> finds has its quantity reduced by the
  quantities of all the line items that name its product, one decrement per line item,
  and every other inventory record, as every other collection, is left as it was.
\<close>

theorem checkout_success:
  assumes "\<forall>it \<in> set (items order). in_stock (db_inventory s) it"
  shows "\<exists>s'. checkout s order =
           (Inr [(''ok'', JBool True), (''order_id'', JStr (str_oid (new_ObjectId s)))], s') \<and>
         new_ObjectId s \<notin> set (all_ids s) \<and>
         db_order s' = db_order s @ [\<lparr>doc_id = new_ObjectId s, doc = order\<rparr>] \<and>
         length (db_inventory s') = length (db_inventory s) \<and>
         (\<forall>i < length (db_inventory s).
            db_inventory s' ! i =
              (if looked_up (db_inventory s) i
               then inc_quantity
                      (- requested (items order) (Inventory.product_id (doc (db_inventory s ! i))))
                      (db_inventory s ! i)
               else db_inventory s ! i)) \<and>
         db_config s' = db_config s \<and> db_collection s' = db_collection s \<and>
         db_product s' = db_product s \<and> db_review s' = db_review s"
proof -
  from assms have "list_all (in_stock (db_inventory s)) (items order)"
    by (simp add: list_all_iff)
  then have "checkout s order =
     (Inr [(''ok'', JBool True), (''order_id'', JStr (str_oid (new_ObjectId s)))],
      s\<lparr>db_inventory := deduct (db_inventory s) (items order),
        db_order := db_order s @ [\<lparr>doc_id = new_ObjectId s, doc = order\<rparr>]\<rparr>)"
    by (rule checkout_in_stock)
  then show ?thesis
    by (simp add: new_ObjectId_fresh deduct_nth)
qed

text \<open>
  Witness for C1: the shop holds 45 of the product and the order asks for 5; the order
  is recorded and 40 are left.
\<close>

theorem checkout_success_witness:
  "list_all (in_stock (db_inventory shop)) (items (order_of [heirloom 5])) \<and>
   (\<exists>s'. checkout shop (order_of [heirloom 5]) =
           (Inr [(''ok'', JBool True), (''order_id'', JStr (str_oid (new_ObjectId shop)))], s') \<and>
         db_order s' = [\<lparr>doc_id = new_ObjectId shop, doc = order_of [heirloom 5]\<rparr>] \<and>
         db_inventory s' = [heirloom_stock 40])"
proof -
  have h: "\<forall>it \<in> set (items (order_of [heirloom 5])). in_stock (db_inventory shop) it"
    by (simp add: in_stock_def by_product_id_def shop_def heirloom_def heirloom_stock_def order_of_def)
  have l: "looked_up (db_inventory shop) 0"
    by (simp add: looked_up_def)
  from checkout_success [OF h] obtain s' where
    c: "checkout shop (order_of [heirloom 5]) =
          (Inr [(''ok'', JBool True), (''order_id'', JStr (str_oid (new_ObjectId shop)))], s')"
    and o: "db_order s' = db_order shop @ [\<lparr>doc_id = new_ObjectId shop, doc = order_of [heirloom 5]\<rparr>]"
    and n: "length (db_inventory s') = length (db_inventory shop)"
    and q: "\<forall>i < length (db_inventory shop).
            db_inventory s' ! i =
              (if looked_up (db_inventory shop) i
               then inc_quantity
                      (- requested (items (order_of [heirloom 5]))
                           (Inventory.product_id (doc (db_inventory shop ! i))))
                      (db_inventory shop ! i)
               else db_inventory shop ! i)"
    by blast
  from q l have "db_inventory s' ! 0 = heirloom_stock 40"
    by (simp add: shop_def heirloom_def heirloom_stock_def order_of_def inc_quantity_def)
  moreover from n have "length (db_inventory s') = 1" by (simp add: shop_def)
  ultimately have "db_inventory s' = [heirloom_stock 40]"
    by (cases "db_inventory s'") simp_all
  moreover from o have "db_order s' = [\<lparr>doc_id = new_ObjectId shop, doc = order_of [heirloom 5]\<rparr>]"
    by (simp add: shop_def)
  ultimately show ?thesis using c h by (auto simp: list_all_iff)
qed

text \<open>
  Counterexample to C1 as it is stated ("an inventory record exists whose product_id
  matches and whose quantity is at least the requested quantity"): the inventory holds
  two records for the product, an empty one in front of one with 45. A record with
  enough stock exists for the order's only line item, which asks for 5, yet the lookup
  returns the first record and \<open>checkout\<close> fails with status 400.
\<close>

theorem checkout_first_record_counterexample:
  "list_all
     (\<lambda>it. list_ex (\<lambda>d. Inventory.product_id (doc d) = OrderItem.product_id it \<and>
                         OrderItem.quantity it \<le> Inventory.quantity (doc d))
              (db_inventory shop_two_records))
     (items (order_of [heirloom 5])) \<and>
   checkout shop_two_records (order_of [heirloom 5]) =
     (Inl (HTTPException 400 ''Insufficient stock for The Classic Heirloom''), shop_two_records)"
  by (simp add: checkout_def by_product_id_def shop_two_records_def shop_def heirloom_def heirloom_stock_def order_of_def)

text \<open>
  When the inventory holds at most one record per product, as the data model expects,
  a record with enough stock is the record the lookup finds, and the quantity of every
  record goes down by what the order's line items request of its product.
\<close>

lemma checkout_success_unique_records:
  assumes "distinct (map (\<lambda>d. Inventory.product_id (doc d)) (db_inventory s))"
    and "\<forall>it \<in> set (items order). \<exists>d \<in> set (db_inventory s).
           Inventory.product_id (doc d) = OrderItem.product_id it \<and>
           OrderItem.quantity it \<le> Inventory.quantity (doc d)"
  shows "checkout s order =
     (Inr [(''ok'', JBool True), (''order_id'', JStr (str_oid (new_ObjectId s)))],
      s\<lparr>db_inventory :=
          map (\<lambda>d. inc_quantity (- requested (items order) (Inventory.product_id (doc d))) d)
            (db_inventory s),
        db_order := db_order s @ [\<lparr>doc_id = new_ObjectId s, doc = order\<rparr>]\<rparr>)"
proof -
  have "in_stock (db_inventory s) it" if "it \<in> set (items order)" for it
  proof -
    from assms(2) that obtain d where d: "d \<in> set (db_inventory s)"
      and p: "Inventory.product_id (doc d) = OrderItem.product_id it"
      and q: "OrderItem.quantity it \<le> Inventory.quantity (doc d)"
      by blast
    from find_one_unique [OF assms(1) d] p q show ?thesis
      by (simp add: in_stock_def)
  qed
  then have "list_all (in_stock (db_inventory s)) (items order)"
    by (simp add: list_all_iff)
  then show ?thesis
    by (simp add: checkout_in_stock deduct_unique [OF assms(1)])
qed

text \<open>
  Claim C2. When some line item of the order has no inventory record for its
  \<open>product_id\<close>, or the inventory quantity the lookup finds for it is strictly less than
  the requested quantity, \<open>checkout\<close> raises \<open>HTTPException\<close> with status 400 and the
  message \<open>Insufficient stock for <title>\<close>, where the title is that of a line item
  with this defect (the first one in the order), and the database, so every inventory
  record, is left exactly as it was.
\<close>

theorem checkout_insufficient_stock:
  assumes "it \<in> set (items order)"
    and "(\<forall>d \<in> set (db_inventory s).
            Inventory.product_id (doc d) \<noteq> OrderItem.product_id it) \<or>
         (\<exists>d. find_one (by_product_id (OrderItem.product_id it)) (db_inventory s) = Some d \<and>
              Inventory.quantity (doc d) < OrderItem.quantity it)"
  shows "\<exists>bad. List.find (\<lambda>it. \<not> in_stock (db_inventory s) it) (items order) = Some bad \<and>
           bad \<in> set (items order) \<and> \<not> in_stock (db_inventory s) bad \<and>
           checkout s order =
             (Inl (HTTPException 400 (''Insufficient stock for '' @ OrderItem.title bad)), s)"
proof -
  from assms(2) have "\<not> in_stock (db_inventory s) it"
    by (simp only: not_in_stock_iff)
  with assms(1) obtain bad where
    bad: "List.find (\<lambda>it. \<not> in_stock (db_inventory s) it) (items order) = Some bad"
    by (cases "List.find (\<lambda>it. \<not> in_stock (db_inventory s) it) (items order)")
       (auto simp: find_None_iff)
  then have mem: "bad \<in> set (items order)" and nin: "\<not> in_stock (db_inventory s) bad"
    by (auto simp: find_Some_iff)
  from bad have "check_stock (db_inventory s) (items order) =
      Some (HTTPException 400 (''Insufficient stock for '' @ OrderItem.title bad))"
    by (rule check_stock_first_bad)
  then have "checkout s order =
      (Inl (HTTPException 400 (''Insufficient stock for '' @ OrderItem.title bad)), s)"
    by (simp add: checkout_def)
  with bad mem nin show ?thesis by blast
qed

text \<open>
  Witness for C2: the shop holds 45 of the product and the order asks for 1000; the
  answer is status 400 naming the product's title, and the inventory still holds 45.
\<close>

theorem checkout_insufficient_stock_witness:
  "heirloom 1000 \<in> set (items (order_of [heirloom 1000])) \<and>
   \<not> in_stock (db_inventory shop) (heirloom 1000) \<and>
   checkout shop (order_of [heirloom 1000]) =
     (Inl (HTTPException 400 ''Insufficient stock for The Classic Heirloom''), shop) \<and>
   db_inventory shop = [heirloom_stock 45]"
proof -
  have m: "heirloom 1000 \<in> set (items (order_of [heirloom 1000]))"
    by (simp add: order_of_def)
  have b: "\<not> in_stock (db_inventory shop) (heirloom 1000)"
    by (simp add: in_stock_def by_product_id_def shop_def heirloom_def heirloom_stock_def)
  from b have c: "(\<forall>d \<in> set (db_inventory shop).
            Inventory.product_id (doc d) \<noteq> OrderItem.product_id (heirloom 1000)) \<or>
         (\<exists>d. find_one (by_product_id (OrderItem.product_id (heirloom 1000))) (db_inventory shop) =
                Some d \<and>
              Inventory.quantity (doc d) < OrderItem.quantity (heirloom 1000))"
    by (simp only: not_in_stock_iff)
  from checkout_insufficient_stock [OF m c] obtain bad where
    "bad \<in> set (items (order_of [heirloom 1000]))" and
    "checkout shop (order_of [heirloom 1000]) =
       (Inl (HTTPException 400 (''Insufficient stock for '' @ OrderItem.title bad)), shop)"
    by blast
  then have "checkout shop (order_of [heirloom 1000]) =
       (Inl (HTTPException 400 ''Insufficient stock for The Classic Heirloom''), shop)"
    by (simp add: order_of_def heirloom_def)
  with m b show ?thesis by (simp add: shop_def)
qed

text \<open>
  Claim C3, evaluated where the code breaks it. The shop holds 45 of the product, no
  quantity is negative, and one order names the product in two line items of 30 each
  (each a well-formed line item: quantity at least 1). Each line item passes the stock
  check against the same 45, both decrements are applied, \<open>checkout\<close> succeeds, and the
  record is left with -15.
\<close>

theorem checkout_same_product_twice_oversells:
  "list_all (\<lambda>d. 0 \<le> Inventory.quantity (doc d)) (db_inventory shop) \<and>
   list_all (\<lambda>it. 1 \<le> OrderItem.quantity it) (items (order_of [heirloom 30, heirloom 30])) \<and>
   fst (checkout shop (order_of [heirloom 30, heirloom 30])) =
     Inr [(''ok'', JBool True), (''order_id'', JStr (str_oid (new_ObjectId shop)))] \<and>
   db_inventory (snd (checkout shop (order_of [heirloom 30, heirloom 30]))) = [heirloom_stock (- 15)]"
  by (simp add: checkout_def by_product_id_def inc_quantity_def create_document_order_def
      Let_def new_ObjectId_def all_ids_def shop_def heirloom_def heirloom_stock_def heirloom_oid_def order_of_def)

text \<open>
  What does hold: when no two line items of an order name the same product, a
  successful checkout leaves every quantity non-negative that was so before, and so
  does every sequence of such checkouts, run one after the other.
\<close>

lemma requested_distinct:
  "distinct (map OrderItem.product_id its) \<Longrightarrow> it \<in> set its \<Longrightarrow>
   requested its (OrderItem.product_id it) = OrderItem.quantity it"
proof (induction its)
  case Nil
  then show ?case by simp
next
  case (Cons a its)
  have none: "requested its p = 0" if "p \<notin> OrderItem.product_id ` set its" for p
    using that by (induction its) auto
  from Cons show ?case
    by (auto simp: none)
qed

lemma requested_absent:
  "pid \<notin> OrderItem.product_id ` set its \<Longrightarrow> requested its pid = 0"
  by (induction its) auto

lemma checkout_keeps_nonnegative:
  assumes ok: "checkout s order = (Inr r, s')"
    and items: "distinct (map OrderItem.product_id (items order))"
    and nonneg: "\<forall>d \<in> set (db_inventory s). 0 \<le> Inventory.quantity (doc d)"
  shows "\<forall>d \<in> set (db_inventory s'). 0 \<le> Inventory.quantity (doc d)"
proof -
  from ok have chk: "check_stock (db_inventory s) (items order) = None"
    by (auto simp: checkout_def split: option.splits)
  then have stock: "list_all (in_stock (db_inventory s)) (items order)"
    by (simp add: check_stock_None_iff)
  with ok have inv': "db_inventory s' = deduct (db_inventory s) (items order)"
    by (auto simp: checkout_in_stock)
  have "0 \<le> Inventory.quantity (doc (deduct (db_inventory s) (items order) ! i))"
    if i: "i < length (db_inventory s)" for i
  proof (cases "looked_up (db_inventory s) i")
    case False
    with i nonneg show ?thesis by (simp add: deduct_nth)
  next
    case True
    let ?d = "db_inventory s ! i"
    let ?p = "Inventory.product_id (doc ?d)"
    have q: "Inventory.quantity (doc (deduct (db_inventory s) (items order) ! i)) =
               Inventory.quantity (doc ?d) - requested (items order) ?p"
      using i True by (simp add: deduct_nth inc_quantity_def)
    show ?thesis
    proof (cases "?p \<in> OrderItem.product_id ` set (items order)")
      case False
      with q i nonneg show ?thesis by (simp add: requested_absent)
    next
      case True
      then obtain it where it: "it \<in> set (items order)" and p: "OrderItem.product_id it = ?p"
        by auto
      from stock it have "in_stock (db_inventory s) it" by (simp add: list_all_iff)
      with find_one_looked_up [OF i \<open>looked_up (db_inventory s) i\<close>] p
      have "OrderItem.quantity it \<le> Inventory.quantity (doc ?d)"
        by (simp add: in_stock_def)
      moreover from requested_distinct [OF items it] p
      have "requested (items order) ?p = OrderItem.quantity it" by simp
      ultimately show ?thesis using q by simp
    qed
  qed
  then show ?thesis
    by (auto simp: inv' in_set_conv_nth)
qed

lemma checkout_all_keeps_nonnegative:
  "checkout_all s orders = Inr s' \<Longrightarrow>
   \<forall>order \<in> set orders. distinct (map OrderItem.product_id (items order)) \<Longrightarrow>
   \<forall>d \<in> set (db_inventory s). 0 \<le> Inventory.quantity (doc d) \<Longrightarrow>
   \<forall>d \<in> set (db_inventory s'). 0 \<le> Inventory.quantity (doc d)"
proof (induction orders arbitrary: s)
  case Nil
  then show ?case by simp
next
  case (Cons order orders)
  from Cons.prems(1) obtain r s1 where
    one: "checkout s order = (Inr r, s1)" and rest: "checkout_all s1 orders = Inr s'"
    by (auto split: prod.splits sum.splits)
  from Cons.prems(2) have "distinct (map OrderItem.product_id (items order))" by simp
  from checkout_keeps_nonnegative [OF one this Cons.prems(3)]
  have "\<forall>d \<in> set (db_inventory s1). 0 \<le> Inventory.quantity (doc d)" .
  with Cons.IH [OF rest] Cons.prems(2) show ?case by simp
qed

text \<open>
  Claim C9. Two checkout requests that differ only in \<open>subtotal\<close>, run on the same
  database, have the same outcome (the same error, or the same success answer) and
  leave the same inventory: the subtotal is only stored with the order.
\<close>

theorem checkout_subtotal_independent:
  "fst (checkout s (order\<lparr>subtotal := t\<rparr>)) = fst (checkout s order) \<and>
   db_inventory (snd (checkout s (order\<lparr>subtotal := t\<rparr>))) = db_inventory (snd (checkout s order))"
  by (simp add: checkout_def create_document_order_def Let_def split: option.splits)

lemma checkout_stores_subtotal:
  "checkout s order = (Inr r, s') \<Longrightarrow> subtotal (doc (last (db_order s'))) = subtotal order"
  by (auto simp: checkout_def create_document_order_def insert_one_def Let_def
           split: option.splits)

section \<open>Config\<close>

text \<open>
  Claim C4. With no document in the config collection, \<open>get_config\<close> returns exactly
  \<open>{limited_edition_active: false, limited_edition_name: "Celestial Gaze"}\<close>; with a
  document in it, \<open>get_config\<close> returns that document (the first of the collection): its
  two fields, and its identifier as a string under \<open>_id\<close>.
\<close>

theorem get_config_default_or_document:
  "(db_config s = [] \<longrightarrow>
      get_config s =
        [(''limited_edition_active'', JBool False),
         (''limited_edition_name'', JStr ''Celestial Gaze'')]) \<and>
   (\<forall>d ds. db_config s = d # ds \<longrightarrow>
      get_config s =
        [(''_id'', JStr (str_oid (doc_id d))),
         (''limited_edition_active'', JBool (Config.limited_edition_active (doc d))),
         (''limited_edition_name'', JStr (limited_edition_name (doc d)))])"
  by (simp add: get_config_def with_id_def Config_dict_def)

text \<open>Witness for C4: the empty database, and a database with one config document.\<close>

theorem get_config_witness:
  "get_config empty_store =
     [(''limited_edition_active'', JBool False),
      (''limited_edition_name'', JStr ''Celestial Gaze'')] \<and>
   get_config shop_configured =
     [(''_id'', JStr ''65a1b2c3d4e5f6a7b8c9d0e0''),
      (''limited_edition_active'', JBool True),
      (''limited_edition_name'', JStr ''Celestial Gaze'')]"
  using get_config_default_or_document [of empty_store]
    get_config_default_or_document [of shop_configured]
  by (simp add: shop_configured_def shop_def empty_store_def str_oid_def hexlify_def)

lemma toggle_config_existing:
  "db_config s = d # ds \<Longrightarrow>
   toggle_config s payload =
     ([(''ok'', JBool True),
       (''limited_edition_active'', JBool (ConfigToggle.limited_edition_active payload))],
      s\<lparr>db_config :=
          d\<lparr>doc := (doc d)\<lparr>Config.limited_edition_active :=
                           ConfigToggle.limited_edition_active payload\<rparr>\<rparr> # ds\<rparr>)"
  by (simp add: toggle_config_def by_id_def set_limited_edition_active_def)

lemma toggle_config_absent:
  "db_config s = [] \<Longrightarrow>
   toggle_config s payload =
     ([(''ok'', JBool True),
       (''limited_edition_active'', JBool (ConfigToggle.limited_edition_active payload))],
      s\<lparr>db_config :=
          [\<lparr>doc_id = new_ObjectId s,
            doc = \<lparr>Config.limited_edition_active = ConfigToggle.limited_edition_active payload,
                   limited_edition_name = ''Celestial Gaze''\<rparr>\<rparr>]\<rparr>)"
  by (simp add: toggle_config_def create_document_config_def insert_one_def ConfigSchema_def
      Let_def)

text \<open>
  Claim C5. If the config collection holds at most one document before
  \<open>toggle_config\<close>, it holds at most one afterwards: an existing document stays in
  place with its \<open>limited_edition_active\<close> set to the requested value (its identifier
  and its name untouched), a document is created only when there is none, and in both
  cases the answer is \<open>{ok: true, limited_edition_active: <requested value>}\<close>.
\<close>

theorem toggle_config_singleton:
  assumes "length (db_config s) \<le> 1"
  shows "length (db_config (snd (toggle_config s payload))) \<le> 1 \<and>
         (\<forall>d. db_config s = [d] \<longrightarrow>
            db_config (snd (toggle_config s payload)) =
              [d\<lparr>doc := (doc d)\<lparr>Config.limited_edition_active :=
                                ConfigToggle.limited_edition_active payload\<rparr>\<rparr>]) \<and>
         (db_config s = [] \<longrightarrow>
            db_config (snd (toggle_config s payload)) =
              [\<lparr>doc_id = new_ObjectId s,
                doc = \<lparr>Config.limited_edition_active =
                         ConfigToggle.limited_edition_active payload,
                       limited_edition_name = ''Celestial Gaze''\<rparr>\<rparr>]) \<and>
         fst (toggle_config s payload) =
           [(''ok'', JBool True),
            (''limited_edition_active'', JBool (ConfigToggle.limited_edition_active payload))]"
proof (cases "db_config s")
  case Nil
  then show ?thesis by (simp add: toggle_config_absent)
next
  case (Cons d ds)
  with assms have "ds = []" by simp
  with Cons show ?thesis by (simp add: toggle_config_existing)
qed

text \<open>
  Witness for C5: switching the flag off in a database with one config document, and
  switching it on in the empty database.
\<close>

theorem toggle_config_singleton_witness:
  "length (db_config shop_configured) \<le> 1 \<and>
   toggle_config shop_configured \<lparr>ConfigToggle.limited_edition_active = False\<rparr> =
     ([(''ok'', JBool True), (''limited_edition_active'', JBool False)],
      shop_configured\<lparr>db_config :=
        [\<lparr>doc_id = ObjectId [101, 161, 178, 195, 212, 229, 246, 167, 184, 201, 208, 224],
          doc = \<lparr>Config.limited_edition_active = False,
                 limited_edition_name = ''Celestial Gaze''\<rparr>\<rparr>]\<rparr>) \<and>
   length (db_config empty_store) \<le> 1 \<and>
   toggle_config empty_store \<lparr>ConfigToggle.limited_edition_active = True\<rparr> =
     ([(''ok'', JBool True), (''limited_edition_active'', JBool True)],
      empty_store\<lparr>db_config :=
        [\<lparr>doc_id = new_ObjectId empty_store,
          doc = \<lparr>Config.limited_edition_active = True,
                 limited_edition_name = ''Celestial Gaze''\<rparr>\<rparr>]\<rparr>)"
proof -
  have a: "length (db_config shop_configured) \<le> 1" by (simp add: shop_configured_def shop_def empty_store_def)
  have b: "length (db_config empty_store) \<le> 1" by (simp add: shop_configured_def shop_def empty_store_def)
  have c: "db_config shop_configured =
     [\<lparr>doc_id = ObjectId [101, 161, 178, 195, 212, 229, 246, 167, 184, 201, 208, 224],
       doc = \<lparr>Config.limited_edition_active = True,
              limited_edition_name = ''Celestial Gaze''\<rparr>\<rparr>]" by (simp add: shop_configured_def shop_def empty_store_def)
  have d: "db_config empty_store = []" by (simp add: shop_configured_def shop_def empty_store_def)
  have e: "snd (toggle_config s p) = s\<lparr>db_config := db_config (snd (toggle_config s p))\<rparr>" for s p
    by (simp add: toggle_config_def create_document_config_def Let_def split: option.splits)
  from toggle_config_singleton [OF a, of "\<lparr>ConfigToggle.limited_edition_active = False\<rparr>"] c
  have 1: "toggle_config shop_configured \<lparr>ConfigToggle.limited_edition_active = False\<rparr> =
     ([(''ok'', JBool True), (''limited_edition_active'', JBool False)],
      shop_configured\<lparr>db_config :=
        [\<lparr>doc_id = ObjectId [101, 161, 178, 195, 212, 229, 246, 167, 184, 201, 208, 224],
          doc = \<lparr>Config.limited_edition_active = False,
                 limited_edition_name = ''Celestial Gaze''\<rparr>\<rparr>]\<rparr>)"
    by (subst prod.collapse [symmetric], subst e) simp
  from toggle_config_singleton [OF b, of "\<lparr>ConfigToggle.limited_edition_active = True\<rparr>"] d
  have 2: "toggle_config empty_store \<lparr>ConfigToggle.limited_edition_active = True\<rparr> =
     ([(''ok'', JBool True), (''limited_edition_active'', JBool True)],
      empty_store\<lparr>db_config :=
        [\<lparr>doc_id = new_ObjectId empty_store,
          doc = \<lparr>Config.limited_edition_active = True,
                 limited_edition_name = ''Celestial Gaze''\<rparr>\<rparr>]\<rparr>)"
    by (subst prod.collapse [symmetric], subst e) simp
  from a b 1 2 show ?thesis by blast
qed

section \<open>Reviews\<close>

text \<open>
  Claim C10. \<open>add_review\<close> never looks the product up: for every database and every
  \<open>product_id\<close> string, a review whose rating lies in 1..5 is stored under that
  \<open>product_id\<close> and the answer is \<open>{ok: true, review_id}\<close>, the string of the new
  document's identifier.
\<close>

theorem add_review_unknown_product:
  assumes "1 \<le> NewReview.rating payload" and "NewReview.rating payload \<le> 5"
  shows "add_review s pid payload =
           (Inr [(''ok'', JBool True), (''review_id'', JStr (str_oid (new_ObjectId s)))],
            s\<lparr>db_review := db_review s @
                 [\<lparr>doc_id = new_ObjectId s,
                   doc = \<lparr>Review.product_id = pid, Review.author = NewReview.author payload,
                          Review.rating = NewReview.rating payload,
                          Review.content = NewReview.content payload\<rparr>\<rparr>]\<rparr>)"
  using assms
  by (simp add: add_review_def ReviewSchema_def create_document_review_def insert_one_def Let_def)

text \<open>
  Witness for C10: the database holds no product at all and the \<open>product_id\<close> is not
  even a well-formed identifier; the review is stored.
\<close>

theorem add_review_unknown_product_witness:
  "db_product empty_store = [] \<and>
   to_oid ''no-such-product'' = Inl (HTTPException 400 ''Invalid ID'') \<and>
   add_review empty_store ''no-such-product''
     \<lparr>NewReview.author = ''Ada'', NewReview.rating = 5, NewReview.content = ''Lovely''\<rparr> =
     (Inr [(''ok'', JBool True), (''review_id'', JStr (str_oid (new_ObjectId empty_store)))],
      empty_store\<lparr>db_review :=
        [\<lparr>doc_id = new_ObjectId empty_store,
          doc = \<lparr>Review.product_id = ''no-such-product'', Review.author = ''Ada'',
                 Review.rating = 5, Review.content = ''Lovely''\<rparr>\<rparr>]\<rparr>)"
  using add_review_unknown_product [of
      "\<lparr>NewReview.author = ''Ada'', NewReview.rating = 5, NewReview.content = ''Lovely''\<rparr>"
      empty_store "''no-such-product''"]
  by (simp add: to_oid_def empty_store_def)

text \<open>
  A rating outside 1..5 makes the schema constructor raise inside the handler: nothing
  is written.
\<close>

lemma add_review_out_of_range:
  "NewReview.rating payload < 1 \<or> 5 < NewReview.rating payload \<Longrightarrow>
   add_review s pid payload = (Inl (ValidationError ''rating''), s)"
  by (auto simp: add_review_def ReviewSchema_def)

text \<open>
  Claim C6, evaluated where the code breaks it. A review with rating 6 fits the request
  body type \<open>NewReview\<close>, which has no bound on \<open>rating\<close>, so the request is not refused
  with status 422 at the boundary; the handler runs, the \<open>Review\<close> constructor raises a
  validation error inside it, nothing is written, and the error leaves the handler as
  an internal server error, status 500.
\<close>

theorem add_review_rating_6_is_500:
  "add_review shop ''65a1b2c3d4e5f6a7b8c9d0e1''
     \<lparr>NewReview.author = ''Ada'', NewReview.rating = 6, NewReview.content = ''Lovely''\<rparr> =
     (Inl (ValidationError ''rating''), shop) \<and>
   status_code (ValidationError ''rating'') = 500"
  by (simp add: add_review_def ReviewSchema_def)

section \<open>Products\<close>

text \<open>
  What the two read operations put under \<open>inventory\<close>. \<open>list_products\<close> looks the
  inventory up by the string of the product's own identifier; \<open>get_product\<close> looks it up
  by the string the request gave. Neither fails when no inventory record is found.
\<close>

lemma list_products_inventory:
  "list_products s h =
     map (\<lambda>p. with_id (doc_id p) (Product_dict (doc p)) @
               [(''inventory'',
                 JInt (case find_one (by_product_id (str_oid (doc_id p))) (db_inventory s) of
                         Some d \<Rightarrow> Inventory.quantity (doc d)
                       | None \<Rightarrow> 0))])
       (filter (\<lambda>p. collection_handle (doc p) = h) (db_product s))"
  by (simp add: list_products_def list_products_item_def get_documents_def inventory_of_def
      Let_def split: option.splits)

lemma get_product_inventory:
  "to_oid pid = Inr i \<Longrightarrow> find_one (by_id i) (db_product s) = Some p \<Longrightarrow>
   get_product s pid =
     Inr (with_id (doc_id p) (Product_dict (doc p)) @
          [(''inventory'',
            JInt (case find_one (by_product_id pid) (db_inventory s) of
                    Some d \<Rightarrow> Inventory.quantity (doc d)
                  | None \<Rightarrow> 0))])"
  by (simp add: get_product_def inventory_of_def Let_def split: option.splits)

text \<open>
  Asked with the identifier in the form \<open>str\<close> gives it, \<open>get_product\<close> reports the
  inventory of the record that matches the product's identifier.
\<close>

lemma get_product_canonical:
  assumes "to_oid pid = Inr i" and "str_oid i = pid"
    and "find_one (by_id i) (db_product s) = Some p"
  shows "get_product s pid =
     Inr (with_id (doc_id p) (Product_dict (doc p)) @
          [(''inventory'',
            JInt (case find_one (by_product_id (str_oid (doc_id p))) (db_inventory s) of
                    Some d \<Rightarrow> Inventory.quantity (doc d)
                  | None \<Rightarrow> 0))])"
proof -
  from assms(3) have "doc_id p = i"
    by (auto dest: find_one_Some_mem simp: by_id_def)
  with assms show ?thesis
    by (simp add: get_product_inventory)
qed

text \<open>
  Claim C8, evaluated where the code breaks it. The shop's product has the identifier
  \<open>65a1b2c3d4e5f6a7b8c9d0e1\<close> and an inventory record for it with 45. Asked for the
  product with the same identifier in capital letters, \<open>get_product\<close> finds the product
  (the identifier parses to the same bytes) but looks the inventory up by the string as
  given, finds nothing and answers \<open>inventory: 0\<close>, although the inventory record
  matching the product's identifier exists. \<open>list_products\<close>, and \<open>get_product\<close> asked in
  small letters, answer 45.
\<close>

theorem get_product_uppercase_id_loses_stock:
  "get_product shop ''65A1B2C3D4E5F6A7B8C9D0E1'' =
     Inr (with_id heirloom_oid (Product_dict heirloom_product) @ [(''inventory'', JInt 0)]) \<and>
   find_one (by_product_id (str_oid heirloom_oid)) (db_inventory shop) = Some (heirloom_stock 45) \<and>
   get_product shop ''65a1b2c3d4e5f6a7b8c9d0e1'' =
     Inr (with_id heirloom_oid (Product_dict heirloom_product) @ [(''inventory'', JInt 45)]) \<and>
   list_products shop ''core'' =
     [with_id heirloom_oid (Product_dict heirloom_product) @ [(''inventory'', JInt 45)]]"
  by (simp add: get_product_def list_products_def list_products_item_def get_documents_def
      to_oid_def digit_value_def isspace_def by_id_def by_product_id_def inventory_of_def
      str_oid_def hexlify_def shop_def heirloom_oid_def heirloom_stock_def
      heirloom_product_def Let_def)

section \<open>Seeding\<close>

lemma create_document_product_frame:
  "create_document_product s d = (a, s') \<Longrightarrow>
   db_config s' = db_config s \<and> db_collection s' = db_collection s \<and> db_product s' \<noteq> []"
  by (auto simp: create_document_product_def insert_one_def Let_def)

lemma create_document_inventory_frame:
  "create_document_inventory s d = (a, s') \<Longrightarrow>
   db_config s' = db_config s \<and> db_collection s' = db_collection s \<and>
   db_product s' = db_product s"
  by (auto simp: create_document_inventory_def Let_def)

lemma create_document_collection_frame:
  "create_document_collection s d = (a, s') \<Longrightarrow>
   db_config s' = db_config s \<and> db_collection s' \<noteq> []"
  by (auto simp: create_document_collection_def insert_one_def Let_def)

lemma seed_config_nonempty: "db_config (seed_config s) \<noteq> []"
  by (simp add: seed_config_def count_documents_def create_document_config_def insert_one_def Let_def)

lemma seed_collections_frame:
  "db_config (seed_collections s) = db_config s \<and> db_collection (seed_collections s) \<noteq> []"
  by (auto simp: seed_collections_def count_documents_def split: prod.splits
           dest!: create_document_collection_frame)

lemma seed_celestial_frame:
  "db_config (seed_celestial s ps) = db_config s \<and>
   db_collection (seed_celestial s ps) = db_collection s \<and>
   (db_product s \<noteq> [] \<longrightarrow> db_product (seed_celestial s ps) \<noteq> [])"
proof (induction s ps rule: seed_celestial.induct)
  case (1 s)
  then show ?case by simp
next
  case (2 s t st rest)
  show ?case
  proof (cases "create_document_product s
            \<lparr>Product.title = t, subtitle = Some st,
             Product.description = Some ''Limited edition celestial-inspired clusters.'',
             Product.price = 28, compare_at_price = Some 32,
             collection_handle = ''celestial-gaze'', image = None,
             limited_badge = Some ''Limited Edition'', is_bundle = False\<rparr>")
    case (Pair pid s1)
    show ?thesis
    proof (cases "create_document_inventory s1
            \<lparr>Inventory.product_id = pid, Inventory.quantity = 20\<rparr>")
      case inv: (Pair iid s2)
      from "2.IH" [OF Pair [symmetric] refl inv [symmetric] refl]
      have ih: "db_config (seed_celestial s2 rest) = db_config s2 \<and>
           db_collection (seed_celestial s2 rest) = db_collection s2 \<and>
           (db_product s2 \<noteq> [] \<longrightarrow> db_product (seed_celestial s2 rest) \<noteq> [])" .
      from create_document_product_frame [OF Pair] create_document_inventory_frame [OF inv] ih
      show ?thesis using Pair inv by simp
    qed
  qed
qed

lemma seed_products_frame:
  "db_config (seed_products s) = db_config s \<and>
   db_collection (seed_products s) = db_collection s \<and>
   db_product (seed_products s) \<noteq> []"
  by (auto simp: seed_products_def count_documents_def seed_celestial_frame split: prod.splits
           dest!: create_document_product_frame create_document_inventory_frame)

lemma seed_config_skip: "db_config s \<noteq> [] \<Longrightarrow> seed_config s = s"
  by (simp add: seed_config_def count_documents_def)

lemma seed_collections_skip: "db_collection s \<noteq> [] \<Longrightarrow> seed_collections s = s"
  by (simp add: seed_collections_def count_documents_def)

lemma seed_products_skip: "db_product s \<noteq> [] \<Longrightarrow> seed_products s = s"
  by (simp add: seed_products_def count_documents_def)

text \<open>
  Claim C7. Running \<open>seed\<close> a second time right after a first run changes nothing: the
  answer and the whole database after two runs are those after one, so no config,
  collection, product or inventory document is added. After the first run the config,
  collection and product collections are non-empty, and each section of \<open>seed\<close> writes
  only when the collection it checks is empty.
\<close>

theorem seed_idempotent:
  "seed (snd (seed s)) = seed s"
proof -
  let ?s3 = "seed_products (seed_collections (seed_config s))"
  have c: "db_config ?s3 \<noteq> []"
    by (simp add: seed_products_frame seed_collections_frame seed_config_nonempty)
  have l: "db_collection ?s3 \<noteq> []"
    by (simp add: seed_products_frame seed_collections_frame)
  have p: "db_product ?s3 \<noteq> []"
    by (simp add: seed_products_frame)
  have "seed_products (seed_collections (seed_config ?s3)) = ?s3"
    using c l p by (simp add: seed_config_skip seed_collections_skip seed_products_skip)
  then show ?thesis by (simp add: seed_def Let_def)
qed

end
